theory Spec2Isabelle
  imports Main
begin

section \<open>Neo Snake: the screen controller of the App component\<close>

text \<open>
  The App component keeps eight pieces of React state and one mutable ref, and talks to three
  stores (game store, shop store, user store) and to the mounted GameCanvas. Its handlers
  are modelled as functions from the state before the handler runs to the state after it.
  JavaScript numbers are modelled as \<open>int\<close>: the handlers only compare them with \<open>0\<close> and
  add small constants to them. A value that may be \<open>null\<close> or \<open>undefined\<close> is an \<open>option\<close>.
\<close>

subsection \<open>Data\<close>

datatype Screen = Menu | Game | GameOver | AdventureMap

datatype GameMode = Classic | Adventure

text \<open>
  Of \<open>SnakeConfig\<close> (declared in engine/types) the component reads one field,
  the optional number \<open>extraLives\<close>.
\<close>

record SnakeConfig =
  extraLives :: "int option"

text \<open>
  The fields of the game store that the component reads or writes. The patch given to
  \<open>useGameStore.setState\<close> is merged into the store, so a field that the patch does not
  name keeps its value: a record update.
\<close>

record GameStore =
  isPlaying :: bool
  isPaused :: bool
  isGameOver :: bool
  score :: int
  catHitsThisLevel :: int
  level :: int
  lastPlayedLevel :: int
  lives :: int
  isFirstGame :: bool
  isDying :: bool
  isStunned :: bool
  stunEndTime :: int

text \<open>
  Everything that lives outside the component: the game store, what \<open>getSelectedSnake()\<close>
  of the shop store currently returns, the \<open>dpadEnabled\<close> flag of the user store, the part
  of the user store that \<open>unlockNextLevel\<close> mutates, and the internal state of the mounted
  game engine.
\<close>

record ('u, 'e) Outside =
  gameStore :: GameStore
  selectedSnake :: "SnakeConfig option"
  dpadEnabled :: bool
  userProgress :: 'u
  engine :: 'e

text \<open>
  The component itself: the eight \<open>useState\<close> cells in the order of their declaration,
  the ref that holds the engine's direction handler (a procedure with an effect on the
  outside, or \<open>null\<close>), the lines written with \<open>console.log\<close> (the message and the number
  logged with it), and the outside.
\<close>

record ('d, 'u, 'e) App =
  screen :: Screen
  showShop :: bool
  showSettings :: bool
  showPauseMenu :: bool
  currentSnake :: "SnakeConfig option"
  currentMode :: GameMode
  gameKey :: int
  justUnlockedLevel :: "int option"
  directionCallbackRef :: "('d \<Rightarrow> ('u, 'e) Outside \<Rightarrow> ('u, 'e) Outside) option"
  console :: "(string \<times> int) list"
  outside :: "('u, 'e) Outside"

text \<open>
  The store operations that the component obtains from \<open>useGameStore()\<close> and
  \<open>useUserStore()\<close>. Their bodies are in store/gameStore and store/userStore; the handlers
  close over them, so the model takes them as parameters.
\<close>

record 'u StoreOps =
  startGame :: "SnakeConfig option \<Rightarrow> GameMode \<Rightarrow> int option \<Rightarrow> GameStore \<Rightarrow> GameStore"
  reset :: "GameStore \<Rightarrow> GameStore"
  pauseGame :: "GameStore \<Rightarrow> GameStore"
  resumeGame :: "GameStore \<Rightarrow> GameStore"
  unlockNextLevel :: "'u \<Rightarrow> 'u"

text \<open>The state after the first render: \<open>useState\<close> initial values and \<open>useRef(null)\<close>.\<close>

definition initialApp :: "('u, 'e) Outside \<Rightarrow> ('d, 'u, 'e) App" where
  "initialApp out =
     \<lparr> screen = Menu, showShop = False, showSettings = False, showPauseMenu = False,
       currentSnake = None, currentMode = Classic, gameKey = 0, justUnlockedLevel = None,
       directionCallbackRef = None, console = [], outside = out \<rparr>"

subsection \<open>Handlers\<close>

definition handleStartGame ::
  "(SnakeConfig option \<Rightarrow> GameMode \<Rightarrow> int option \<Rightarrow> GameStore \<Rightarrow> GameStore) \<Rightarrow>
   SnakeConfig \<Rightarrow> GameMode \<Rightarrow> ('d, 'u, 'e) App \<Rightarrow> ('d, 'u, 'e) App" where
  "handleStartGame start snake mode a =
     a\<lparr> currentSnake := Some snake,
        currentMode := mode,
        outside := (outside a)\<lparr> gameStore := start (Some snake) mode None (gameStore (outside a)) \<rparr>,
        screen := Game \<rparr>"

definition handleGameOver :: "('d, 'u, 'e) App \<Rightarrow> ('d, 'u, 'e) App" where
  "handleGameOver a = a\<lparr> screen := GameOver \<rparr>"

definition handleLevelUp :: "int \<Rightarrow> ('d, 'u, 'e) App \<Rightarrow> ('d, 'u, 'e) App" where
  "handleLevelUp lvl a = a"

text \<open>\<open>x || 0\<close> for an optional number \<open>x\<close>: \<open>undefined\<close> and \<open>0\<close> are falsy.\<close>

definition orZero :: "int option \<Rightarrow> int" where
  "orZero x = (case x of None \<Rightarrow> 0 | Some n \<Rightarrow> if n = 0 then 0 else n)"

definition handlePlayAgain :: "('d, 'u, 'e) App \<Rightarrow> ('d, 'u, 'e) App" where
  "handlePlayAgain a =
     (case selectedSnake (outside a) of
        None \<Rightarrow> a
      | Some snake \<Rightarrow>
          let store = gameStore (outside a);
              currentLives = lives store;
              isFullReset = (currentLives = 0);
              snakeExtraLives = orZero (extraLives snake);
              totalLives = 3 + snakeExtraLives;
              patched = store\<lparr>
                isPlaying := True,
                isPaused := False,
                isGameOver := False,
                score := (if isFullReset then 0 else score store),
                catHitsThisLevel := (if isFullReset then 0 else catHitsThisLevel store),
                level := (if isFullReset then lastPlayedLevel store else level store),
                lives := (if isFullReset then totalLives else lives store),
                isFirstGame := (if isFullReset then True else isFirstGame store),
                isDying := False,
                isStunned := False,
                stunEndTime := 0 \<rparr>
          in a\<lparr> currentSnake := Some snake,
                outside := (outside a)\<lparr> gameStore := patched \<rparr>,
                gameKey := (if isFullReset then gameKey a + 1 else gameKey a),
                screen := Game \<rparr>)"

definition handleMainMenu ::
  "(GameStore \<Rightarrow> GameStore) \<Rightarrow> ('d, 'u, 'e) App \<Rightarrow> ('d, 'u, 'e) App" where
  "handleMainMenu rst a =
     a\<lparr> outside := (outside a)\<lparr> gameStore := rst (gameStore (outside a)) \<rparr>,
        showPauseMenu := False,
        screen := Menu \<rparr>"

definition handlePauseGame ::
  "(GameStore \<Rightarrow> GameStore) \<Rightarrow> ('d, 'u, 'e) App \<Rightarrow> ('d, 'u, 'e) App" where
  "handlePauseGame pause a =
     a\<lparr> outside := (outside a)\<lparr> gameStore := pause (gameStore (outside a)) \<rparr>,
        showPauseMenu := True \<rparr>"

definition handleResumeGame ::
  "(GameStore \<Rightarrow> GameStore) \<Rightarrow> ('d, 'u, 'e) App \<Rightarrow> ('d, 'u, 'e) App" where
  "handleResumeGame resume a =
     (let a1 = a\<lparr> showPauseMenu := False \<rparr>
      in a1\<lparr> outside := (outside a1)\<lparr> gameStore := resume (gameStore (outside a1)) \<rparr> \<rparr>)"

definition handleOpenSettingsFromPause :: "('d, 'u, 'e) App \<Rightarrow> ('d, 'u, 'e) App" where
  "handleOpenSettingsFromPause a = a\<lparr> showSettings := True \<rparr>"

text \<open>
  Calling the value held by the ref. JavaScript raises a TypeError when the value called is
  \<open>null\<close>; the model makes that a result, so that a handler that cannot raise is one that
  never returns \<open>Inl\<close>. A registered handler is taken to return normally.
\<close>

datatype JsError = TypeError

definition callRef ::
  "('d \<Rightarrow> 'o \<Rightarrow> 'o) option \<Rightarrow> 'd \<Rightarrow> 'o \<Rightarrow> JsError + 'o" where
  "callRef f d out = (case f of None \<Rightarrow> Inl TypeError | Some cb \<Rightarrow> Inr (cb d out))"

definition handleDpadPress :: "'d \<Rightarrow> ('d, 'u, 'e) App \<Rightarrow> JsError + ('d, 'u, 'e) App" where
  "handleDpadPress direction a =
     (if directionCallbackRef a \<noteq> None
      then (case callRef (directionCallbackRef a) direction (outside a) of
              Inl err \<Rightarrow> Inl err
            | Inr out \<Rightarrow> Inr (a\<lparr> outside := out \<rparr>))
      else Inr a)"

definition setDirectionCallback ::
  "('d \<Rightarrow> ('u, 'e) Outside \<Rightarrow> ('u, 'e) Outside) \<Rightarrow> ('d, 'u, 'e) App \<Rightarrow> ('d, 'u, 'e) App" where
  "setDirectionCallback callback a = a\<lparr> directionCallbackRef := Some callback \<rparr>"

definition handleAdventureLevelComplete ::
  "('u \<Rightarrow> 'u) \<Rightarrow> int \<Rightarrow> ('d, 'u, 'e) App \<Rightarrow> ('d, 'u, 'e) App" where
  "handleAdventureLevelComplete unlock completedLevel a =
     a\<lparr> console := console a @ [(''[Adventure] Level completed:'', completedLevel)],
        outside := (outside a)\<lparr> userProgress := unlock (userProgress (outside a)) \<rparr> \<rparr>"

text \<open>The handlers written inline in the JSX, named after the prop they are passed to.\<close>

definition onOpenShop :: "('d, 'u, 'e) App \<Rightarrow> ('d, 'u, 'e) App" where
  "onOpenShop a = a\<lparr> showShop := True \<rparr>"

definition onOpenSettings :: "('d, 'u, 'e) App \<Rightarrow> ('d, 'u, 'e) App" where
  "onOpenSettings a = a\<lparr> showSettings := True \<rparr>"

definition onOpenAdventureMap :: "('d, 'u, 'e) App \<Rightarrow> ('d, 'u, 'e) App" where
  "onOpenAdventureMap a = a\<lparr> screen := AdventureMap \<rparr>"

definition onSelectLevel ::
  "(SnakeConfig option \<Rightarrow> GameMode \<Rightarrow> int option \<Rightarrow> GameStore \<Rightarrow> GameStore) \<Rightarrow>
   int \<Rightarrow> ('d, 'u, 'e) App \<Rightarrow> ('d, 'u, 'e) App" where
  "onSelectLevel start lvl a =
     (let snake = selectedSnake (outside a);
          started = start snake Adventure (Some lvl) (gameStore (outside a))
      in a\<lparr> console := console a @
                [(''[DEBUG App] Starting adventure at level:'', lvl),
                 (''[DEBUG App] After startGame, gameStore level:'', level started)],
            currentSnake := snake,
            currentMode := Adventure,
            outside := (outside a)\<lparr> gameStore := started \<rparr>,
            justUnlockedLevel := None,
            screen := Game \<rparr>)"

definition onBack :: "('d, 'u, 'e) App \<Rightarrow> ('d, 'u, 'e) App" where
  "onBack a = a\<lparr> screen := Menu \<rparr>"

definition onCloseShop :: "('d, 'u, 'e) App \<Rightarrow> ('d, 'u, 'e) App" where
  "onCloseShop a = a\<lparr> showShop := False \<rparr>"

definition onCloseSettings :: "('d, 'u, 'e) App \<Rightarrow> ('d, 'u, 'e) App" where
  "onCloseSettings a = a\<lparr> showSettings := False \<rparr>"




subsection \<open>The component as a transition system\<close>

text \<open>
  One event per callback that the rendered tree can fire. \<open>OutsideChange\<close> stands for a
  write to the stores or to the engine by another component (the engine's game loop, the
  shop and settings modals).
\<close>

datatype ('d, 'u, 'e) Event =
    StartGame SnakeConfig GameMode
  | OpenShop
  | OpenSettings
  | OpenAdventureMap
  | SelectLevel int
  | Back
  | PressPause
  | EngineGameOver
  | EngineLevelUp int
  | EngineLevelComplete int
  | DirectionCallbackReady "'d \<Rightarrow> ('u, 'e) Outside \<Rightarrow> ('u, 'e) Outside"
  | DpadPress 'd
  | PlayAgain
  | GameOverMainMenu
  | PauseResume
  | PauseSettings
  | PauseMainMenu
  | CloseShop
  | CloseSettings
  | OutsideChange "('u, 'e) Outside \<Rightarrow> ('u, 'e) Outside"

text \<open>
  The game screen (HUD, GameCanvas, and with them the engine's callbacks) is rendered under
  \<open>(screen === 'game' || screen === 'gameover') && currentSnake\<close>.
\<close>

definition gameScreenRendered :: "('d, 'u, 'e) App \<Rightarrow> bool" where
  "gameScreenRendered a \<longleftrightarrow> (screen a = Game \<or> screen a = GameOver) \<and> currentSnake a \<noteq> None"

text \<open>
  The pause button of the HUD is shown under
  \<open>showPauseButton={isPlaying && !isPaused && screen === 'game'}\<close>.
\<close>

definition showPauseButton :: "('d, 'u, 'e) App \<Rightarrow> bool" where
  "showPauseButton a \<longleftrightarrow>
     isPlaying (gameStore (outside a)) \<and> \<not> isPaused (gameStore (outside a)) \<and> screen a = Game"

text \<open>
  An event can fire when the component that owns its callback is rendered; a press of the
  pause button, when the HUD is rendered and shows the button.
\<close>

fun enabled :: "('d, 'u, 'e) Event \<Rightarrow> ('d, 'u, 'e) App \<Rightarrow> bool" where
  "enabled (StartGame snake mode) a = (screen a = Menu)"
| "enabled OpenShop a = (screen a = Menu)"
| "enabled OpenSettings a = (screen a = Menu)"
| "enabled OpenAdventureMap a = (screen a = Menu)"
| "enabled (SelectLevel lvl) a = (screen a = AdventureMap)"
| "enabled Back a = (screen a = AdventureMap)"
| "enabled PressPause a = (gameScreenRendered a \<and> showPauseButton a)"
| "enabled EngineGameOver a = gameScreenRendered a"
| "enabled (EngineLevelUp lvl) a = gameScreenRendered a"
| "enabled (EngineLevelComplete lvl) a = gameScreenRendered a"
| "enabled (DirectionCallbackReady cb) a = gameScreenRendered a"
| "enabled (DpadPress d) a =
     (gameScreenRendered a \<and> dpadEnabled (outside a) \<and> isPlaying (gameStore (outside a))
      \<and> \<not> isPaused (gameStore (outside a)) \<and> screen a = Game)"
| "enabled PlayAgain a = (gameScreenRendered a \<and> screen a = GameOver)"
| "enabled GameOverMainMenu a = (gameScreenRendered a \<and> screen a = GameOver)"
| "enabled PauseResume a = showPauseMenu a"
| "enabled PauseSettings a = showPauseMenu a"
| "enabled PauseMainMenu a = showPauseMenu a"
| "enabled CloseShop a = showShop a"
| "enabled CloseSettings a = showSettings a"
| "enabled (OutsideChange f) a = True"

fun fire :: "'u StoreOps \<Rightarrow> ('d, 'u, 'e) Event \<Rightarrow> ('d, 'u, 'e) App \<Rightarrow> ('d, 'u, 'e) App" where
  "fire ops (StartGame snake mode) a = handleStartGame (startGame ops) snake mode a"
| "fire ops OpenShop a = onOpenShop a"
| "fire ops OpenSettings a = onOpenSettings a"
| "fire ops OpenAdventureMap a = onOpenAdventureMap a"
| "fire ops (SelectLevel lvl) a = onSelectLevel (startGame ops) lvl a"
| "fire ops Back a = onBack a"
| "fire ops PressPause a = handlePauseGame (pauseGame ops) a"
| "fire ops EngineGameOver a = handleGameOver a"
| "fire ops (EngineLevelUp lvl) a = handleLevelUp lvl a"
| "fire ops (EngineLevelComplete lvl) a = handleAdventureLevelComplete (unlockNextLevel ops) lvl a"
| "fire ops (DirectionCallbackReady cb) a = setDirectionCallback cb a"
| "fire ops (DpadPress d) a = (case handleDpadPress d a of Inl err \<Rightarrow> a | Inr a' \<Rightarrow> a')"
| "fire ops PlayAgain a = handlePlayAgain a"
| "fire ops GameOverMainMenu a = handleMainMenu (reset ops) a"
| "fire ops PauseResume a = handleResumeGame (resumeGame ops) a"
| "fire ops PauseSettings a = handleOpenSettingsFromPause a"
| "fire ops PauseMainMenu a = handleMainMenu (reset ops) a"
| "fire ops CloseShop a = onCloseShop a"
| "fire ops CloseSettings a = onCloseSettings a"
| "fire ops (OutsideChange f) a = a\<lparr> outside := f (outside a) \<rparr>"

inductive reachable :: "'u StoreOps \<Rightarrow> ('d, 'u, 'e) App \<Rightarrow> bool" for ops where
  start: "reachable ops (initialApp out)"
| step: "reachable ops a \<Longrightarrow> enabled ev a \<Longrightarrow> reachable ops (fire ops ev a)"



subsection \<open>Sample states\<close>

text \<open>
  Concrete states on which the handlers are run below. Directions are strings, the user's
  progress is the number of the highest unlocked level, and the engine records the
  directions it was given.
\<close>

definition twoExtraLives :: SnakeConfig where
  "twoExtraLives = \<lparr> extraLives = Some 2 \<rparr>"

definition plainSnake :: SnakeConfig where
  "plainSnake = \<lparr> extraLives = None \<rparr>"

definition allLivesUsed :: GameStore where
  "allLivesUsed =
     \<lparr> isPlaying = False, isPaused = False, isGameOver = True, score = 1500,
       catHitsThisLevel = 2, level = 6, lastPlayedLevel = 4, lives = 0,
       isFirstGame = False, isDying = True, isStunned = True, stunEndTime = 98765 \<rparr>"

definition oneLifeLeft :: GameStore where
  "oneLifeLeft =
     \<lparr> isPlaying = False, isPaused = False, isGameOver = True, score = 1500,
       catHitsThisLevel = 2, level = 4, lastPlayedLevel = 3, lives = 1,
       isFirstGame = False, isDying = True, isStunned = True, stunEndTime = 98765 \<rparr>"

definition freshStore :: GameStore where
  "freshStore =
     \<lparr> isPlaying = False, isPaused = False, isGameOver = False, score = 0,
       catHitsThisLevel = 0, level = 1, lastPlayedLevel = 1, lives = 3,
       isFirstGame = True, isDying = False, isStunned = False, stunEndTime = 0 \<rparr>"

definition sampleOutside ::
  "GameStore \<Rightarrow> SnakeConfig option \<Rightarrow> (int, string list) Outside" where
  "sampleOutside g sel =
     \<lparr> gameStore = g, selectedSnake = sel, dpadEnabled = True, userProgress = 4, engine = [] \<rparr>"

definition steer :: "string \<Rightarrow> (int, string list) Outside \<Rightarrow> (int, string list) Outside" where
  "steer d out = out\<lparr> engine := engine out @ [d] \<rparr>"

definition sampleApp ::
  "Screen \<Rightarrow> GameStore \<Rightarrow> SnakeConfig option \<Rightarrow> (string, int, string list) App" where
  "sampleApp scr g sel =
     \<lparr> screen = scr, showShop = False, showSettings = False, showPauseMenu = False,
       currentSnake = Some plainSnake, currentMode = Adventure, gameKey = 7,
       justUnlockedLevel = Some 5, directionCallbackRef = None, console = [],
       outside = sampleOutside g sel \<rparr>"


section \<open>Retry\<close>

lemma orZero_eq: "orZero x = (case x of None \<Rightarrow> 0 | Some n \<Rightarrow> n)"
  by (simp add: orZero_def split: option.split)

lemma handleDpadPress_eq:
  "handleDpadPress d a =
     Inr (case directionCallbackRef a of None \<Rightarrow> a | Some cb \<Rightarrow> a\<lparr> outside := cb d (outside a) \<rparr>)"
  by (simp add: handleDpadPress_def callRef_def split: option.split)

text \<open>
  C1. A retry with a snake selected and \<open>lives = 0\<close> (a full reset) leaves
  \<open>lives = 3 + extraLives\<close> of the active snake (0 when unset), \<open>score = 0\<close>,
  \<open>catHitsThisLevel = 0\<close>, \<open>isFirstGame\<close> true, \<open>isDying\<close> and \<open>isStunned\<close> false,
  \<open>stunEndTime = 0\<close>, \<open>level\<close> equal to the \<open>lastPlayedLevel\<close> of before the retry,
  \<open>gameKey\<close> one more than before, and the screen Game. The active snake after the retry is
  the selected one.
\<close>

theorem full_reset_retry:
  fixes a :: "('d, 'u, 'e) App"
  assumes sel: "selectedSnake (outside a) = Some snake"
    and zero: "lives (gameStore (outside a)) = 0"
  shows "(let a' = handlePlayAgain a; g = gameStore (outside a); g' = gameStore (outside a')
          in currentSnake a' = Some snake
           \<and> lives g' = 3 + (case extraLives snake of None \<Rightarrow> 0 | Some n \<Rightarrow> n)
           \<and> score g' = 0
           \<and> catHitsThisLevel g' = 0
           \<and> isFirstGame g'
           \<and> \<not> isDying g' \<and> \<not> isStunned g' \<and> stunEndTime g' = 0
           \<and> level g' = lastPlayedLevel g
           \<and> gameKey a' = gameKey a + 1
           \<and> screen a' = Game)"
  using sel zero by (simp add: handlePlayAgain_def Let_def orZero_eq)

theorem full_reset_retry_witness:
  "selectedSnake (outside (sampleApp GameOver allLivesUsed (Some twoExtraLives))) = Some twoExtraLives
   \<and> lives (gameStore (outside (sampleApp GameOver allLivesUsed (Some twoExtraLives)))) = 0
   \<and> lives (gameStore (outside (handlePlayAgain (sampleApp GameOver allLivesUsed (Some twoExtraLives))))) = 5
   \<and> level (gameStore (outside (handlePlayAgain (sampleApp GameOver allLivesUsed (Some twoExtraLives))))) = 4
   \<and> score (gameStore (outside (handlePlayAgain (sampleApp GameOver allLivesUsed (Some twoExtraLives))))) = 0
   \<and> gameKey (handlePlayAgain (sampleApp GameOver allLivesUsed (Some twoExtraLives))) = 8
   \<and> screen (handlePlayAgain (sampleApp GameOver allLivesUsed (Some twoExtraLives))) = Game"
proof -
  let ?a = "sampleApp GameOver allLivesUsed (Some twoExtraLives)"
  have sel: "selectedSnake (outside ?a) = Some twoExtraLives"
    by (simp add: sampleApp_def sampleOutside_def)
  have zero: "lives (gameStore (outside ?a)) = 0"
    by (simp add: sampleApp_def sampleOutside_def allLivesUsed_def)
  have before: "lastPlayedLevel (gameStore (outside ?a)) = 4" "gameKey ?a = 7"
    by (simp_all add: sampleApp_def sampleOutside_def allLivesUsed_def)
  from full_reset_retry [OF sel zero] before sel zero show ?thesis
    by (simp add: Let_def twoExtraLives_def)
qed


text \<open>
  C2. A retry with a snake selected and \<open>lives > 0\<close> (a partial retry) writes to the game
  store only \<open>isPlaying = true\<close>, \<open>isPaused = false\<close>, \<open>isGameOver = false\<close>,
  \<open>isDying = false\<close>, \<open>isStunned = false\<close> and \<open>stunEndTime = 0\<close>; \<open>score\<close>, \<open>level\<close>,
  \<open>catHitsThisLevel\<close>, \<open>isFirstGame\<close> (and \<open>lives\<close>) keep their values, \<open>gameKey\<close> is
  unchanged and the screen becomes Game. The active snake becomes the selected one.
\<close>

theorem partial_retry:
  fixes a :: "('d, 'u, 'e) App"
  assumes sel: "selectedSnake (outside a) = Some snake"
    and pos: "0 < lives (gameStore (outside a))"
  shows "(let a' = handlePlayAgain a; g = gameStore (outside a); g' = gameStore (outside a')
          in g' = g\<lparr> isPlaying := True, isPaused := False, isGameOver := False,
                      isDying := False, isStunned := False, stunEndTime := 0 \<rparr>
           \<and> score g' = score g
           \<and> level g' = level g
           \<and> catHitsThisLevel g' = catHitsThisLevel g
           \<and> isFirstGame g' = isFirstGame g
           \<and> lives g' = lives g
           \<and> gameKey a' = gameKey a
           \<and> isPlaying g' \<and> \<not> isPaused g' \<and> \<not> isGameOver g'
           \<and> \<not> isDying g' \<and> \<not> isStunned g' \<and> stunEndTime g' = 0
           \<and> screen a' = Game
           \<and> a' = a\<lparr> currentSnake := Some snake, outside := (outside a)\<lparr> gameStore := g' \<rparr>,
                      screen := Game \<rparr>)"
  using sel pos by (simp add: handlePlayAgain_def Let_def)

theorem partial_retry_witness:
  "selectedSnake (outside (sampleApp GameOver oneLifeLeft (Some plainSnake))) = Some plainSnake
   \<and> 0 < lives (gameStore (outside (sampleApp GameOver oneLifeLeft (Some plainSnake))))
   \<and> lives (gameStore (outside (handlePlayAgain (sampleApp GameOver oneLifeLeft (Some plainSnake))))) = 1
   \<and> score (gameStore (outside (handlePlayAgain (sampleApp GameOver oneLifeLeft (Some plainSnake))))) = 1500
   \<and> level (gameStore (outside (handlePlayAgain (sampleApp GameOver oneLifeLeft (Some plainSnake))))) = 4
   \<and> gameKey (handlePlayAgain (sampleApp GameOver oneLifeLeft (Some plainSnake))) = 7
   \<and> screen (handlePlayAgain (sampleApp GameOver oneLifeLeft (Some plainSnake))) = Game"
proof -
  let ?a = "sampleApp GameOver oneLifeLeft (Some plainSnake)"
  have sel: "selectedSnake (outside ?a) = Some plainSnake"
    by (simp add: sampleApp_def sampleOutside_def)
  have pos: "0 < lives (gameStore (outside ?a))"
    by (simp add: sampleApp_def sampleOutside_def oneLifeLeft_def)
  have before: "lives (gameStore (outside ?a)) = 1" "score (gameStore (outside ?a)) = 1500"
    "level (gameStore (outside ?a)) = 4" "gameKey ?a = 7"
    by (simp_all add: sampleApp_def sampleOutside_def oneLifeLeft_def)
  from partial_retry [OF sel pos] have
    "lives (gameStore (outside (handlePlayAgain ?a))) = lives (gameStore (outside ?a))"
    "score (gameStore (outside (handlePlayAgain ?a))) = score (gameStore (outside ?a))"
    "level (gameStore (outside (handlePlayAgain ?a))) = level (gameStore (outside ?a))"
    "gameKey (handlePlayAgain ?a) = gameKey ?a"
    "screen (handlePlayAgain ?a) = Game"
    by (simp_all add: Let_def)
  with before sel pos show ?thesis by simp
qed

text \<open>
  C10. No retry writes \<open>lastPlayedLevel\<close>: it has the same value after \<open>handlePlayAgain\<close> as
  before, whatever the state. Hence two full resets that start from the same
  \<open>lastPlayedLevel\<close> restart at the same level, and that level is the \<open>lastPlayedLevel\<close> that
  the store still holds after the retry.
\<close>

theorem retry_keeps_lastPlayedLevel:
  fixes a b :: "('d, 'u, 'e) App"
  shows "lastPlayedLevel (gameStore (outside (handlePlayAgain a))) = lastPlayedLevel (gameStore (outside a))
       \<and> (selectedSnake (outside a) \<noteq> None \<and> lives (gameStore (outside a)) = 0
          \<and> selectedSnake (outside b) \<noteq> None \<and> lives (gameStore (outside b)) = 0
          \<and> lastPlayedLevel (gameStore (outside b)) = lastPlayedLevel (gameStore (outside a))
          \<longrightarrow> level (gameStore (outside (handlePlayAgain b))) = level (gameStore (outside (handlePlayAgain a)))
            \<and> level (gameStore (outside (handlePlayAgain a)))
                = lastPlayedLevel (gameStore (outside (handlePlayAgain a))))"
  by (auto simp add: handlePlayAgain_def Let_def split: option.split)

theorem retry_keeps_lastPlayedLevel_witness:
  "lastPlayedLevel (gameStore (outside (handlePlayAgain (sampleApp GameOver allLivesUsed (Some plainSnake))))) = 4
   \<and> lastPlayedLevel (gameStore (outside (handlePlayAgain (sampleApp GameOver oneLifeLeft (Some plainSnake))))) = 3
   \<and> selectedSnake (outside (sampleApp GameOver allLivesUsed (Some plainSnake))) \<noteq> None
   \<and> lives (gameStore (outside (sampleApp GameOver allLivesUsed (Some plainSnake)))) = 0
   \<and> selectedSnake (outside (sampleApp Game (allLivesUsed\<lparr> level := 9 \<rparr>) (Some twoExtraLives))) \<noteq> None
   \<and> lives (gameStore (outside (sampleApp Game (allLivesUsed\<lparr> level := 9 \<rparr>) (Some twoExtraLives)))) = 0
   \<and> level (gameStore (outside (handlePlayAgain (sampleApp Game (allLivesUsed\<lparr> level := 9 \<rparr>) (Some twoExtraLives)))))
       = level (gameStore (outside (handlePlayAgain (sampleApp GameOver allLivesUsed (Some plainSnake)))))"
proof -
  let ?a = "sampleApp GameOver allLivesUsed (Some plainSnake)"
  let ?b = "sampleApp Game (allLivesUsed\<lparr> level := 9 \<rparr>) (Some twoExtraLives)"
  let ?c = "sampleApp GameOver oneLifeLeft (Some plainSnake)"
  have facts: "selectedSnake (outside ?a) \<noteq> None" "lives (gameStore (outside ?a)) = 0"
    "selectedSnake (outside ?b) \<noteq> None" "lives (gameStore (outside ?b)) = 0"
    "lastPlayedLevel (gameStore (outside ?b)) = lastPlayedLevel (gameStore (outside ?a))"
    "lastPlayedLevel (gameStore (outside ?a)) = 4" "lastPlayedLevel (gameStore (outside ?c)) = 3"
    by (simp_all add: sampleApp_def sampleOutside_def allLivesUsed_def oneLifeLeft_def)
  from retry_keeps_lastPlayedLevel [of ?a ?b] retry_keeps_lastPlayedLevel [of ?c ?c] facts
  show ?thesis by simp
qed

section \<open>No snake selected\<close>

lemma playAgain_without_snake:
  "selectedSnake (outside a) = None \<Longrightarrow> handlePlayAgain a = a"
  by (simp add: handlePlayAgain_def)

text \<open>
  C3. With no snake selected a retry returns the state it was given: \<open>playAgain_without_snake\<close>.
  Selecting an adventure level has no such check. On the adventure map with no snake selected
  it stores the missing snake as the current one, sets the mode to Adventure, calls
  \<open>startGame\<close> with the missing snake, clears \<open>justUnlockedLevel\<close>, writes two lines to the
  console and sets the screen to Game.
\<close>

theorem select_level_without_snake_changes_state:
  "selectedSnake (outside (sampleApp AdventureMap freshStore None)) = None
   \<and> screen (onSelectLevel start 3 (sampleApp AdventureMap freshStore None)) = Game
   \<and> currentSnake (onSelectLevel start 3 (sampleApp AdventureMap freshStore None)) = None
   \<and> justUnlockedLevel (onSelectLevel start 3 (sampleApp AdventureMap freshStore None)) = None
   \<and> gameStore (outside (onSelectLevel start 3 (sampleApp AdventureMap freshStore None)))
       = start None Adventure (Some 3) freshStore
   \<and> onSelectLevel start 3 (sampleApp AdventureMap freshStore None)
       \<noteq> sampleApp AdventureMap freshStore None"
proof -
  let ?a = "sampleApp AdventureMap freshStore None"
  have scr: "screen (onSelectLevel start 3 ?a) = Game"
    by (simp add: onSelectLevel_def Let_def)
  have "screen ?a = AdventureMap"
    by (simp add: sampleApp_def)
  with scr have "screen (onSelectLevel start 3 ?a) \<noteq> screen ?a"
    by simp
  then have "onSelectLevel start 3 ?a \<noteq> ?a"
    by auto
  then show ?thesis
    by (simp add: onSelectLevel_def Let_def sampleApp_def sampleOutside_def)
qed

section \<open>The active snake on the game screens\<close>

text \<open>
  Every event keeps "a snake is active on the Game and GameOver screens", provided that a
  snake is selected whenever an adventure level is selected.
\<close>

lemma activeSnake_preserved:
  assumes inv: "screen a = Game \<or> screen a = GameOver \<longrightarrow> currentSnake a \<noteq> None"
    and en: "enabled ev a"
    and sel: "\<forall>lvl. ev = SelectLevel lvl \<longrightarrow> selectedSnake (outside a) \<noteq> None"
  shows "screen (fire ops ev a) = Game \<or> screen (fire ops ev a) = GameOver
         \<longrightarrow> currentSnake (fire ops ev a) \<noteq> None"
  using inv en sel
  by (cases ev)
     (auto simp add: handleStartGame_def onOpenShop_def onOpenSettings_def onOpenAdventureMap_def
        onSelectLevel_def onBack_def handlePauseGame_def handleGameOver_def handleLevelUp_def
        handleAdventureLevelComplete_def setDirectionCallback_def handleDpadPress_eq
        handlePlayAgain_def handleMainMenu_def handleResumeGame_def
        handleOpenSettingsFromPause_def onCloseShop_def onCloseSettings_def
        gameScreenRendered_def Let_def
        split: option.splits)

text \<open>
  C4. The state reached from the first render by opening the adventure map and selecting
  level 1 while no snake is selected has the screen Game and no active snake: the game
  screen is not rendered. It is the missing check of C3 seen from the invariant.
\<close>

theorem game_screen_without_snake_reachable:
  fixes ops :: "int StoreOps"
  shows "(let a = fire ops (SelectLevel 1) (fire ops OpenAdventureMap
                    (initialApp (sampleOutside freshStore None)))
          in reachable ops a \<and> screen a = Game \<and> currentSnake a = None
             \<and> \<not> gameScreenRendered a)"
proof -
  let ?a0 = "initialApp (sampleOutside freshStore None) :: ('d, int, string list) App"
  let ?a1 = "fire ops OpenAdventureMap ?a0"
  have r0: "reachable ops ?a0" by (rule reachable.start)
  have "enabled OpenAdventureMap ?a0" by (simp add: initialApp_def)
  with r0 have r1: "reachable ops ?a1" by (rule reachable.step)
  have "enabled (SelectLevel 1) ?a1" by (simp add: onOpenAdventureMap_def)
  with r1 have "reachable ops (fire ops (SelectLevel 1) ?a1)" by (rule reachable.step)
  then show ?thesis
    by (simp add: Let_def onSelectLevel_def onOpenAdventureMap_def initialApp_def
        sampleOutside_def gameScreenRendered_def)
qed

section \<open>Transitions into the menu\<close>





section \<open>Pause and resume\<close>



section \<open>Level complete, overlays, D-Pad\<close>

text \<open>
  C7. When the engine reports an adventure level complete, the handler logs the level and
  applies \<open>unlockNextLevel\<close> once to the user's progress. The screen, the overlay flags, the
  active snake and mode, \<open>gameKey\<close>, \<open>justUnlockedLevel\<close> and the direction handler are
  unchanged, and so are the game store, the selection and the engine.
\<close>

theorem level_complete_only_unlocks:
  fixes a :: "('d, 'u, 'e) App"
  shows "(let a' = handleAdventureLevelComplete unlock completedLevel a
          in screen a' = screen a
           \<and> userProgress (outside a') = unlock (userProgress (outside a))
           \<and> outside a' = (outside a)\<lparr> userProgress := unlock (userProgress (outside a)) \<rparr>
           \<and> justUnlockedLevel a' = justUnlockedLevel a
           \<and> a'\<lparr> console := console a, outside := outside a \<rparr> = a
           \<and> fire ops (EngineLevelComplete completedLevel) a
               = handleAdventureLevelComplete (unlockNextLevel ops) completedLevel a)"
  by (simp add: handleAdventureLevelComplete_def Let_def)

text \<open>
  C8. Opening the shop or the settings (from the menu or from the pause menu) sets that
  overlay's flag and nothing else; closing one clears its flag and nothing else. In
  particular the screen and the other overlay flags keep their values.
\<close>

theorem overlays_touch_only_their_flag:
  fixes a :: "('d, 'u, 'e) App"
  shows "showShop (onOpenShop a) \<and> (onOpenShop a)\<lparr> showShop := showShop a \<rparr> = a
       \<and> showSettings (onOpenSettings a) \<and> (onOpenSettings a)\<lparr> showSettings := showSettings a \<rparr> = a
       \<and> showSettings (handleOpenSettingsFromPause a)
       \<and> (handleOpenSettingsFromPause a)\<lparr> showSettings := showSettings a \<rparr> = a
       \<and> \<not> showShop (onCloseShop a) \<and> (onCloseShop a)\<lparr> showShop := showShop a \<rparr> = a
       \<and> \<not> showSettings (onCloseSettings a) \<and> (onCloseSettings a)\<lparr> showSettings := showSettings a \<rparr> = a
       \<and> screen (onOpenShop a) = screen a \<and> screen (onOpenSettings a) = screen a
       \<and> screen (handleOpenSettingsFromPause a) = screen a
       \<and> screen (onCloseShop a) = screen a \<and> screen (onCloseSettings a) = screen a
       \<and> showSettings (onCloseShop a) = showSettings a \<and> showPauseMenu (onCloseShop a) = showPauseMenu a
       \<and> showShop (onCloseSettings a) = showShop a \<and> showPauseMenu (onCloseSettings a) = showPauseMenu a"
  by (simp add: onOpenShop_def onOpenSettings_def handleOpenSettingsFromPause_def
      onCloseShop_def onCloseSettings_def)

text \<open>
  C9. A D-Pad press calls the registered direction handler with the direction pressed, and
  the component's own state is unchanged; with no handler registered it returns the state
  unchanged. In neither case does it raise.
\<close>

theorem dpad_press:
  fixes a :: "('d, 'u, 'e) App"
  shows "(\<forall>cb. directionCallbackRef a = Some cb
            \<longrightarrow> handleDpadPress direction a = Inr (a\<lparr> outside := cb direction (outside a) \<rparr>))
       \<and> (directionCallbackRef a = None \<longrightarrow> handleDpadPress direction a = Inr a)
       \<and> (\<exists>a'. handleDpadPress direction a = Inr a')"
  by (cases "directionCallbackRef a") (simp_all add: handleDpadPress_def callRef_def)

theorem dpad_press_witness:
  "directionCallbackRef (sampleApp Game freshStore (Some plainSnake)) = None
   \<and> handleDpadPress ''UP'' (sampleApp Game freshStore (Some plainSnake))
       = Inr (sampleApp Game freshStore (Some plainSnake))
   \<and> directionCallbackRef (setDirectionCallback steer (sampleApp Game freshStore (Some plainSnake)))
       = Some steer
   \<and> (\<exists>a'. handleDpadPress ''UP'' (setDirectionCallback steer (sampleApp Game freshStore (Some plainSnake)))
             = Inr a' \<and> engine (outside a') = [''UP''])"
proof -
  let ?a = "sampleApp Game freshStore (Some plainSnake)"
  let ?b = "setDirectionCallback steer ?a"
  have none: "directionCallbackRef ?a = None"
    by (simp add: sampleApp_def)
  have some: "directionCallbackRef ?b = Some steer"
    by (simp add: setDirectionCallback_def)
  have eng: "engine (outside (?b\<lparr> outside := steer ''UP'' (outside ?b) \<rparr>)) = [''UP'']"
    by (simp add: setDirectionCallback_def steer_def sampleApp_def sampleOutside_def)
  from dpad_press [of ?a "''UP''"] none
  have "handleDpadPress ''UP'' ?a = Inr ?a" by simp
  moreover from dpad_press [of ?b "''UP''"] some
  have "handleDpadPress ''UP'' ?b = Inr (?b\<lparr> outside := steer ''UP'' (outside ?b) \<rparr>)" by simp
  ultimately show ?thesis using none some eng by simp
qed

end
